theory Spec2Isabelle
  imports Complex_Main "HOL-Library.Sublist"
begin

section \<open>S3 lifecycle optimizer: data model\<close>

text \<open>
  The embedding follows \<^verbatim>\<open>src/s3_optimizer.py\<close>. Python floats are modelled as
  \<^typ>\<open>real\<close> (sizes, costs), Python ints as \<^typ>\<open>int\<close>, strings as
  \<^typ>\<open>string\<close>. Console output (the \<^verbatim>\<open>print\<close> calls) is not modelled.
\<close>

datatype error = KeyError string | AttributeError string | ClientError | OSError

text \<open>The table \<^verbatim>\<open>config['analysis']['storage_costs']\<close> of the loaded YAML file.\<close>

record config =
  storage_costs :: "string \<rightharpoonup> real"

record transition =
  days :: int
  storage_class :: string

record recommendation =
  strategy :: string
  transitions :: "transition list"
  estimated_cost :: real
  savings_percentage :: int

subsection \<open>Strings: \<^verbatim>\<open>str.lower\<close> and \<^verbatim>\<open>in\<close>\<close>

text \<open>
  Bucket names are ASCII; \<^verbatim>\<open>lower\<close> maps the letters A to Z to a to z and leaves
  every other character as it is.
\<close>

definition lower_char :: "char \<Rightarrow> char" where
  "lower_char c =
     (let n = (of_char c :: nat) in if 65 \<le> n \<and> n \<le> 90 then char_of (n + 32) else c)"

definition lower :: "string \<Rightarrow> string" where
  "lower s = map lower_char s"

text \<open>\<^verbatim>\<open>sub in s\<close>: \<open>sub\<close> occurs in \<open>s\<close> as a contiguous run.\<close>

fun str_contains :: "string \<Rightarrow> string \<Rightarrow> bool" where
  "str_contains sub [] = (sub = [])"
| "str_contains sub (c # cs) = (prefix sub (c # cs) \<or> str_contains sub cs)"

subsection \<open>Cost estimation and recommendation\<close>

definition calculate_current_cost :: "config \<Rightarrow> real \<Rightarrow> string \<Rightarrow> error + real" where
  "calculate_current_cost config size_bytes storage_cls =
     (let size_gb = size_bytes / (1024 ^ 3) in
      case storage_costs config storage_cls of
        None \<Rightarrow> Inl (KeyError storage_cls)
      | Some cost_per_gb \<Rightarrow> Inr (size_gb * cost_per_gb))"

definition recommend_lifecycle_policy ::
  "config \<Rightarrow> string \<Rightarrow> real \<Rightarrow> int \<Rightarrow> error + (recommendation option \<times> real)" where
  "recommend_lifecycle_policy config bucket_name size_bytes object_count =
     (let size_gb = size_bytes / (1024 ^ 3) in
      if size_gb < 1 then Inr (None, 0)
      else
        case calculate_current_cost config size_bytes ''standard'' of
          Inl e \<Rightarrow> Inl e
        | Inr current_cost \<Rightarrow>
            let recommendation =
              (if str_contains ''log'' (lower bucket_name)
                  \<or> str_contains ''backup'' (lower bucket_name) then
                 \<lparr>strategy = ''Intelligent-Tiering + Glacier'',
                  transitions =
                    [\<lparr>days = 30, storage_class = ''INTELLIGENT_TIERING''\<rparr>,
                     \<lparr>days = 90, storage_class = ''GLACIER_IR''\<rparr>],
                  estimated_cost = size_gb * (4 / 1000),
                  savings_percentage = 83\<rparr>
               else if str_contains ''archive'' (lower bucket_name) then
                 \<lparr>strategy = ''Deep Archive'',
                  transitions = [\<lparr>days = 0, storage_class = ''DEEP_ARCHIVE''\<rparr>],
                  estimated_cost = size_gb * (99 / 100000),
                  savings_percentage = 96\<rparr>
               else
                 \<lparr>strategy = ''Intelligent-Tiering'',
                  transitions = [\<lparr>days = 30, storage_class = ''INTELLIGENT_TIERING''\<rparr>],
                  estimated_cost = size_gb * (25 / 10000),
                  savings_percentage = 89\<rparr>);
              savings = current_cost - estimated_cost recommendation
            in Inr (Some recommendation, savings))"

subsection \<open>Policy documents\<close>

record policy_transition =
  Days :: int
  StorageClass :: string

record rule =
  Id' :: string
  Status :: string
  Transitions :: "policy_transition list"

record lifecycle_policy =
  Rules :: "rule list"

text \<open>\<^verbatim>\<open>str(n)\<close> for a non-negative integer: its decimal digits.\<close>

definition digit_char :: "nat \<Rightarrow> char" where
  "digit_char d = char_of (48 + d)"

function str_of_nat :: "nat \<Rightarrow> string" where
  "str_of_nat n =
     (if n < 10 then [digit_char n] else str_of_nat (n div 10) @ [digit_char (n mod 10)])"
  by pat_completeness auto
termination
  by (relation "measure (\<lambda>n. n)") auto

declare str_of_nat.simps [simp del]

text \<open>
  The loop over \<^verbatim>\<open>enumerate(recommendation['transitions'])\<close> appends one rule per
  transition to \<open>rules\<close>.
\<close>

definition generate_lifecycle_policy :: "recommendation \<Rightarrow> lifecycle_policy" where
  "generate_lifecycle_policy recommendation =
     (let rules =
        foldl (\<lambda>rules (i, transition).
                 rules @
                 [\<lparr>Id' = ''OptimizationRule'' @ str_of_nat (i + 1),
                   Status = ''Enabled'',
                   Transitions =
                     [\<lparr>Days = days transition,
                       StorageClass = storage_class transition\<rparr>]\<rparr>])
              [] (enumerate 0 (transitions recommendation))
      in \<lparr>Rules = rules\<rparr>)"

section \<open>The provider and the audit\<close>

text \<open>
  The storage provider and its metrics service are outside the program. A \<open>provider\<close>
  value is what they answer during one run: the bucket listing, the answer to a
  lifecycle read per bucket, the answer to a metric query per metric name, bucket and
  storage type, and whether a lifecycle write is accepted. \<open>calls\<close> in the \<open>world\<close>
  records every request the program sends, in order.

  The client library is outside the program as well. \<open>exceptions\<close> is the set of names
  of the exception classes that \<^verbatim>\<open>self.s3_client.exceptions\<close> defines: looking up a
  name outside it raises \<^verbatim>\<open>AttributeError\<close>.
\<close>

datatype lifecycle_response =
    LifecycleConfiguration "rule list option"
  | NoSuchLifecycleConfiguration
  | LifecycleError

text \<open>
  A metric answer is the list \<^verbatim>\<open>response['Datapoints']\<close>, each datapoint given by its
  \<^verbatim>\<open>'Average'\<close>, or an error.
\<close>

datatype metric_response = Datapoints "real list" | MetricError

datatype api_call =
    ListBuckets
  | GetBucketLifecycleConfiguration string
  | GetMetricStatistics string string string
  | PutBucketLifecycleConfiguration string lifecycle_policy

record provider =
  list_buckets :: "error + string list"
  get_bucket_lifecycle_configuration :: "string \<Rightarrow> lifecycle_response"
  get_metric_statistics :: "string \<Rightarrow> string \<Rightarrow> string \<Rightarrow> metric_response"
  put_accepted :: "string \<Rightarrow> lifecycle_policy \<Rightarrow> bool"
  exceptions :: "string set"

record audit_record =
  bucket_name_col :: string
  size_gb_col :: real
  object_count_col :: int
  has_lifecycle_col :: bool
  current_cost_col :: real
  recommendation_col :: string
  potential_savings_col :: real

record csv_file =
  fieldnames :: "string list"
  rows :: "audit_record list"

record world =
  provider :: provider
  calls :: "api_call list"
  config_files :: "string \<rightharpoonup> config"
  writable :: "string \<Rightarrow> bool"
  csv_files :: "string \<rightharpoonup> csv_file"

definition get_all_buckets :: "world \<Rightarrow> (error + string list) \<times> world" where
  "get_all_buckets w = (list_buckets (provider w), w\<lparr>calls := calls w @ [ListBuckets]\<rparr>)"

text \<open>
  When the read raises, the first \<^verbatim>\<open>except\<close> clause evaluates
  \<^verbatim>\<open>self.s3_client.exceptions.NoSuchLifecycleConfiguration\<close> before anything is caught:
  if the client defines no class of that name, the \<^verbatim>\<open>AttributeError\<close> of the lookup
  leaves the function, whatever the read raised; otherwise either clause returns
  \<^verbatim>\<open>None\<close>.
\<close>

definition get_bucket_lifecycle ::
  "string \<Rightarrow> world \<Rightarrow> (error + rule list option) \<times> world" where
  "get_bucket_lifecycle bucket_name w =
     (let w' = w\<lparr>calls := calls w @ [GetBucketLifecycleConfiguration bucket_name]\<rparr> in
      case get_bucket_lifecycle_configuration (provider w) bucket_name of
        LifecycleConfiguration response \<Rightarrow>
          (Inr (Some (case response of Some rules \<Rightarrow> rules | None \<Rightarrow> [])), w')
      | NoSuchLifecycleConfiguration \<Rightarrow>
          if ''NoSuchLifecycleConfiguration'' \<in> exceptions (provider w) then (Inr None, w')
          else (Inl (AttributeError ''NoSuchLifecycleConfiguration''), w')
      | LifecycleError \<Rightarrow>
          if ''NoSuchLifecycleConfiguration'' \<in> exceptions (provider w) then (Inr None, w')
          else (Inl (AttributeError ''NoSuchLifecycleConfiguration''), w'))"

definition get_bucket_size :: "string \<Rightarrow> world \<Rightarrow> real \<times> world" where
  "get_bucket_size bucket_name w =
     (let w' = w\<lparr>calls := calls w @
                  [GetMetricStatistics ''BucketSizeBytes'' bucket_name ''StandardStorage'']\<rparr> in
      case get_metric_statistics (provider w)
             ''BucketSizeBytes'' bucket_name ''StandardStorage'' of
        Datapoints [] \<Rightarrow> (0, w')
      | Datapoints (average # _) \<Rightarrow> (average, w')
      | MetricError \<Rightarrow> (0, w'))"

text \<open>\<^verbatim>\<open>int(x)\<close> on a float truncates towards zero.\<close>

definition py_int :: "real \<Rightarrow> int" where
  "py_int x = (if 0 \<le> x then \<lfloor>x\<rfloor> else \<lceil>x\<rceil>)"

definition get_bucket_object_count :: "string \<Rightarrow> world \<Rightarrow> int \<times> world" where
  "get_bucket_object_count bucket_name w =
     (let w' = w\<lparr>calls := calls w @
                  [GetMetricStatistics ''NumberOfObjects'' bucket_name ''AllStorageTypes'']\<rparr> in
      case get_metric_statistics (provider w)
             ''NumberOfObjects'' bucket_name ''AllStorageTypes'' of
        Datapoints [] \<Rightarrow> (0, w')
      | Datapoints (average # _) \<Rightarrow> (py_int average, w')
      | MetricError \<Rightarrow> (0, w'))"

text \<open>\<^verbatim>\<open>round(x, 2)\<close>: to two decimals, a tie going to the even neighbour.\<close>

definition round_half_even :: "real \<Rightarrow> int" where
  "round_half_even x =
     (let f = \<lfloor>x\<rfloor>; d = x - of_int f in
      if d < 1 / 2 then f else if 1 / 2 < d then f + 1 else if even f then f else f + 1)"

definition round2 :: "real \<Rightarrow> real" where
  "round2 x = of_int (round_half_even (x * 100)) / 100"

text \<open>The running totals of the audit loop, with the records collected so far.\<close>

record audit_state =
  audit_results :: "audit_record list"
  total_size :: real
  total_cost :: real
  total_savings :: real
  buckets_without_lifecycle :: int

text \<open>The body of the loop \<^verbatim>\<open>for bucket in buckets\<close>.\<close>

definition audit_bucket ::
  "config \<Rightarrow> string \<Rightarrow> audit_state \<Rightarrow> world \<Rightarrow> (error + audit_state) \<times> world" where
  "audit_bucket config bucket_name st w =
     (case get_bucket_lifecycle bucket_name w of
        (Inl e, w1) \<Rightarrow> (Inl e, w1)
      | (Inr lifecycle, w1) \<Rightarrow>
          let has_lifecycle = (lifecycle \<noteq> None);
              (size_bytes, w2) = get_bucket_size bucket_name w1;
              (object_count, w3) = get_bucket_object_count bucket_name w2;
              size_gb = size_bytes / (1024 ^ 3)
          in
          case calculate_current_cost config size_bytes ''standard'' of
            Inl e \<Rightarrow> (Inl e, w3)
          | Inr current_cost \<Rightarrow>
              (case (if \<not> has_lifecycle \<and> 1 < size_gb
                     then recommend_lifecycle_policy config bucket_name size_bytes object_count
                     else Inr (None, 0)) of
                 Inl e \<Rightarrow> (Inl e, w3)
               | Inr (recommendation, savings) \<Rightarrow>
                   let st1 =
                     (case recommendation of
                        Some r \<Rightarrow>
                          st\<lparr>buckets_without_lifecycle := buckets_without_lifecycle st + 1,
                             total_savings := total_savings st + savings\<rparr>
                      | None \<Rightarrow> st)
                   in
                   (Inr (st1\<lparr>total_size := total_size st1 + size_bytes,
                              total_cost := total_cost st1 + current_cost,
                              audit_results := audit_results st1 @
                                [\<lparr>bucket_name_col = bucket_name,
                                  size_gb_col = round2 size_gb,
                                  object_count_col = object_count,
                                  has_lifecycle_col = has_lifecycle,
                                  current_cost_col = round2 current_cost,
                                  recommendation_col =
                                    (case recommendation of
                                       Some r \<Rightarrow> strategy r | None \<Rightarrow> ''N/A''),
                                  potential_savings_col = round2 savings\<rparr>]\<rparr>),
                    w3)))"

fun audit_loop ::
  "config \<Rightarrow> string list \<Rightarrow> audit_state \<Rightarrow> world \<Rightarrow> (error + audit_state) \<times> world" where
  "audit_loop config [] st w = (Inr st, w)"
| "audit_loop config (bucket_name # buckets) st w =
     (case audit_bucket config bucket_name st w of
        (Inl e, w') \<Rightarrow> (Inl e, w')
      | (Inr st', w') \<Rightarrow> audit_loop config buckets st' w')"

text \<open>
  \<open>audit_summary\<close> is \<^verbatim>\<open>audit_buckets\<close> up to its summary: the records and the totals
  the summary prints. \<open>audit_buckets\<close> returns the records.
\<close>

definition audit_summary :: "config \<Rightarrow> world \<Rightarrow> (error + audit_state) \<times> world" where
  "audit_summary config w =
     (case get_all_buckets w of
        (Inl e, w0) \<Rightarrow> (Inl e, w0)
      | (Inr buckets, w0) \<Rightarrow>
          audit_loop config buckets
            \<lparr>audit_results = [], total_size = 0, total_cost = 0, total_savings = 0,
             buckets_without_lifecycle = 0\<rparr> w0)"

definition audit_buckets :: "config \<Rightarrow> world \<Rightarrow> (error + audit_record list) \<times> world" where
  "audit_buckets config w =
     (case audit_summary config w of
        (Inl e, w') \<Rightarrow> (Inl e, w')
      | (Inr st, w') \<Rightarrow> (Inr (audit_results st), w'))"

subsection \<open>Applying a policy, exporting, and the command surface\<close>

definition apply_lifecycle_policy ::
  "string \<Rightarrow> lifecycle_policy \<Rightarrow> bool \<Rightarrow> world \<Rightarrow> bool \<times> world" where
  "apply_lifecycle_policy bucket_name policy dry_run w =
     (if dry_run then (True, w)
      else
        let w' = w\<lparr>calls := calls w @ [PutBucketLifecycleConfiguration bucket_name policy]\<rparr> in
        if put_accepted (provider w) bucket_name policy then
          (True,
           w'\<lparr>provider := (provider w)
                \<lparr>get_bucket_lifecycle_configuration :=
                   (get_bucket_lifecycle_configuration (provider w))
                     (bucket_name := LifecycleConfiguration (Some (Rules policy)))\<rparr>\<rparr>)
        else (False, w'))"

definition export_to_csv :: "audit_record list \<Rightarrow> string \<Rightarrow> world \<Rightarrow> (error + unit) \<times> world" where
  "export_to_csv results output_file w =
     (if writable w output_file then
        (Inr (),
         w\<lparr>csv_files := (csv_files w)
              (output_file \<mapsto>
                 \<lparr>fieldnames =
                     [''bucket_name'', ''size_gb'', ''object_count'', ''has_lifecycle'',
                      ''current_cost'', ''recommendation'', ''potential_savings''],
                   rows = results\<rparr>)\<rparr>)
      else (Inl OSError, w))"

datatype mode = Audit | Recommend | Apply

record args =
  mode_arg :: mode
  config_arg :: string
  output_arg :: "string option"
  bucket_arg :: "string option"
  dry_run_arg :: bool

text \<open>
  \<^verbatim>\<open>main\<close> after argument parsing. The constructor of the optimizer reads the
  configuration file; \<^verbatim>\<open>if args.output\<close> holds for a non-empty path.
\<close>

definition main :: "args \<Rightarrow> world \<Rightarrow> (error + unit) \<times> world" where
  "main args w =
     (case config_files w (config_arg args) of
        None \<Rightarrow> (Inl OSError, w)
      | Some config \<Rightarrow>
          if mode_arg args = Audit then
            (case audit_buckets config w of
               (Inl e, w1) \<Rightarrow> (Inl e, w1)
             | (Inr results, w1) \<Rightarrow>
                 (case output_arg args of
                    Some output_file \<Rightarrow>
                      if output_file \<noteq> [] then export_to_csv results output_file w1
                      else (Inr (), w1)
                  | None \<Rightarrow> (Inr (), w1)))
          else if mode_arg args = Recommend then
            (case audit_buckets config w of
               (Inl e, w1) \<Rightarrow> (Inl e, w1)
             | (Inr results, w1) \<Rightarrow>
                 (case output_arg args of
                    Some output_file \<Rightarrow>
                      if output_file \<noteq> [] then export_to_csv results output_file w1
                      else (Inr (), w1)
                  | None \<Rightarrow> (Inr (), w1)))
          else (Inr (), w))"


section \<open>Example inputs\<close>

text \<open>
  A configuration with the standard rate 0.023 per GB, the aggressive-tiering
  recommendation, and a provider with six buckets: a 500 GB log bucket without a
  lifecycle policy, a 0.5 GB bucket whose lifecycle read fails, a 2000 GB bucket with a
  lifecycle policy whose object-count read fails, a bucket of exactly 1 GB without a
  lifecycle policy, a bucket with no datapoint yet, and a bucket whose size read fails.
  Its client defines the exception class \<^verbatim>\<open>NoSuchLifecycleConfiguration\<close>; every
  path but one is writable.
\<close>

definition example_config :: config where
  "example_config = \<lparr>storage_costs = [''standard'' \<mapsto> 23 / 1000]\<rparr>"

definition example_recommendation :: recommendation where
  "example_recommendation =
     \<lparr>strategy = ''Intelligent-Tiering + Glacier'',
      transitions = [\<lparr>days = 30, storage_class = ''INTELLIGENT_TIERING''\<rparr>,
                     \<lparr>days = 90, storage_class = ''GLACIER_IR''\<rparr>],
      estimated_cost = 2, savings_percentage = 83\<rparr>"

definition example_provider :: provider where
  "example_provider =
     \<lparr>list_buckets =
        Inr [''prod-logs-archive'', ''tiny-bucket'', ''media-assets'', ''edge-archive'',
             ''new-backup'', ''lost-logs''],
      get_bucket_lifecycle_configuration =
        (\<lambda>b. if b = ''media-assets'' then LifecycleConfiguration (Some [])
             else if b = ''tiny-bucket'' then LifecycleError
             else NoSuchLifecycleConfiguration),
      get_metric_statistics =
        (\<lambda>metric b storage_type.
           if metric = ''BucketSizeBytes'' then
             (if b = ''prod-logs-archive'' then Datapoints [500 * 2 ^ 30]
              else if b = ''tiny-bucket'' then Datapoints [2 ^ 29]
              else if b = ''media-assets'' then Datapoints [2000 * 2 ^ 30, 1900 * 2 ^ 30]
              else if b = ''edge-archive'' then Datapoints [2 ^ 30]
              else if b = ''new-backup'' then Datapoints []
              else MetricError)
           else
             (if b = ''prod-logs-archive'' then Datapoints [2401 / 2]
              else if b = ''media-assets'' then MetricError
              else if b = ''edge-archive'' then Datapoints [10]
              else Datapoints [])),
      put_accepted = (\<lambda>b policy. b \<noteq> ''media-assets''),
      exceptions = {''NoSuchBucket'', ''NoSuchKey'', ''NoSuchLifecycleConfiguration''}\<rparr>"

definition example_world :: world where
  "example_world =
     \<lparr>provider = example_provider, calls = [],
      config_files = [''config.yaml'' \<mapsto> example_config],
      writable = (\<lambda>path. path \<noteq> ''/readonly/report.csv''), csv_files = Map.empty\<rparr>"

text \<open>The same world seen through a client that defines no \<^verbatim>\<open>NoSuchLifecycleConfiguration\<close>.\<close>

definition example_world_no_class :: world where
  "example_world_no_class =
     example_world\<lparr>provider := example_provider\<lparr>exceptions := {''NoSuchBucket'', ''NoSuchKey''}\<rparr>\<rparr>"

definition example_args :: args where
  "example_args =
     \<lparr>mode_arg = Audit, config_arg = ''config.yaml'', output_arg = Some ''report.csv'',
      bucket_arg = None, dry_run_arg = False\<rparr>"

section \<open>Properties\<close>

subsection \<open>Strings\<close>


text \<open>\<open>str_contains\<close> is the substring relation.\<close>

lemma str_contains_iff: "str_contains sub s \<longleftrightarrow> (\<exists>pre suf. s = pre @ sub @ suf)"
proof (induction s)
  case Nil
  then show ?case by auto
next
  case (Cons c cs)
  show ?case
  proof
    assume "str_contains sub (c # cs)"
    then consider "prefix sub (c # cs)" | "str_contains sub cs" by auto
    then show "\<exists>pre suf. c # cs = pre @ sub @ suf"
    proof cases
      case 1
      then obtain suf where "c # cs = sub @ suf" by (auto simp: prefix_def)
      then have "c # cs = [] @ sub @ suf" by simp
      then show ?thesis by blast
    next
      case 2
      with Cons.IH obtain pre suf where "cs = pre @ sub @ suf" by blast
      then have "c # cs = (c # pre) @ sub @ suf" by simp
      then show ?thesis by blast
    qed
  next
    assume "\<exists>pre suf. c # cs = pre @ sub @ suf"
    then obtain pre suf where eq: "c # cs = pre @ sub @ suf" by blast
    show "str_contains sub (c # cs)"
    proof (cases pre)
      case Nil
      with eq have "prefix sub (c # cs)" by (simp add: prefix_def)
      then show ?thesis by simp
    next
      case (Cons p ps)
      with eq have "cs = ps @ sub @ suf" by simp
      with Cons.IH have "str_contains sub cs" by blast
      then show ?thesis by simp
    qed
  qed
qed

lemma lower_char_upper: "lower_char CHR ''L'' = CHR ''l'' \<and> lower_char CHR ''-'' = CHR ''-''"
  by code_simp

lemma lower_idem: "lower (lower s) = lower s"
proof -
  have "lower_char (lower_char c) = lower_char c" for c
    by (cases c) (auto simp: lower_char_def Let_def)
  then show ?thesis by (simp add: lower_def)
qed

lemma of_char_digit_char: "d < 10 \<Longrightarrow> (of_char (digit_char d) :: nat) = 48 + d"
  by (simp add: digit_char_def)

lemma str_of_nat_decimal:
  "foldl (\<lambda>a c. 10 * a + (of_char c - 48)) 0 (str_of_nat n) = n"
proof (induction n rule: str_of_nat.induct)
  case (1 n)
  show ?case
  proof (cases "n < 10")
    case True
    then have "str_of_nat n = [digit_char n]" by (subst str_of_nat.simps) simp
    with True show ?thesis by (simp add: of_char_digit_char)
  next
    case False
    have m: "n mod 10 < 10" by simp
    from False 1
    have IH: "foldl (\<lambda>a c. 10 * a + (of_char c - 48)) 0 (str_of_nat (n div 10)) = n div 10"
      by simp
    have "str_of_nat n = str_of_nat (n div 10) @ [digit_char (n mod 10)]"
      using False by (subst str_of_nat.simps) simp
    then show ?thesis using IH of_char_digit_char [OF m] by simp
  qed
qed

subsection \<open>The recommendation\<close>

text \<open>
  C1. For a size of at least 1 GB (and a configured standard rate),
  \<open>recommend_lifecycle_policy\<close> classifies by substring match on the lower-cased name,
  in this order: ``log'' or ``backup'' gives aggressive tiering with the transitions
  (30, INTELLIGENT\_TIERING), (90, GLACIER\_IR) and unit cost 0.004 per GB; otherwise
  ``archive'' gives deep archive with the transition (0, DEEP\_ARCHIVE) and unit cost
  0.00099 per GB; otherwise generic intelligent tiering with the transition
  (30, INTELLIGENT\_TIERING) and unit cost 0.0025 per GB.
\<close>

theorem recommend_classification:
  assumes "2 ^ 30 \<le> size_bytes" and "storage_costs config ''standard'' = Some rate"
  shows "\<exists>savings.
    recommend_lifecycle_policy config bucket_name size_bytes object_count =
      Inr (Some
        (if str_contains ''log'' (lower bucket_name) \<or> str_contains ''backup'' (lower bucket_name)
         then \<lparr>strategy = ''Intelligent-Tiering + Glacier'',
               transitions = [\<lparr>days = 30, storage_class = ''INTELLIGENT_TIERING''\<rparr>,
                              \<lparr>days = 90, storage_class = ''GLACIER_IR''\<rparr>],
               estimated_cost = size_bytes / 2 ^ 30 * (4 / 1000),
               savings_percentage = 83\<rparr>
         else if str_contains ''archive'' (lower bucket_name)
         then \<lparr>strategy = ''Deep Archive'',
               transitions = [\<lparr>days = 0, storage_class = ''DEEP_ARCHIVE''\<rparr>],
               estimated_cost = size_bytes / 2 ^ 30 * (99 / 100000),
               savings_percentage = 96\<rparr>
         else \<lparr>strategy = ''Intelligent-Tiering'',
               transitions = [\<lparr>days = 30, storage_class = ''INTELLIGENT_TIERING''\<rparr>],
               estimated_cost = size_bytes / 2 ^ 30 * (25 / 10000),
               savings_percentage = 89\<rparr>), savings)"
proof -
  have "\<not> size_bytes / 1024 ^ 3 < 1" using assms(1) by simp
  then show ?thesis
    using assms(2)
    by (simp add: recommend_lifecycle_policy_def calculate_current_cost_def Let_def)
qed

theorem recommend_classification_witness:
  "(2::real) ^ 30 \<le> 500 * 2 ^ 30 \<and>
   storage_costs example_config ''standard'' = Some (23 / 1000) \<and>
   (\<exists>savings. recommend_lifecycle_policy example_config ''PROD-Logs-Archive'' (500 * 2 ^ 30) 0 =
      Inr (Some \<lparr>strategy = ''Intelligent-Tiering + Glacier'',
               transitions = [\<lparr>days = 30, storage_class = ''INTELLIGENT_TIERING''\<rparr>,
                              \<lparr>days = 90, storage_class = ''GLACIER_IR''\<rparr>],
               estimated_cost = 2, savings_percentage = 83\<rparr>, savings))"
proof -
  have h1: "(2::real) ^ 30 \<le> 500 * 2 ^ 30" by simp
  have h2: "storage_costs example_config ''standard'' = Some (23 / 1000)"
    by (simp add: example_config_def)
  have h3: "str_contains ''log'' (lower ''PROD-Logs-Archive'')"
    by code_simp
  show ?thesis
    using h1 h2 h3 recommend_classification [OF h1 h2, of "''PROD-Logs-Archive''" 0]
    by simp
qed

text \<open>
  C2. Below 1 GB (\<open>2 ^ 30\<close> bytes) there is no recommendation and the savings are zero,
  whatever the name and the configuration.
\<close>

theorem recommend_below_threshold:
  assumes "size_bytes < 2 ^ 30"
  shows "recommend_lifecycle_policy config bucket_name size_bytes object_count = Inr (None, 0)"
  using assms by (simp add: recommend_lifecycle_policy_def)

theorem recommend_below_threshold_witness:
  "(2::real) ^ 29 < 2 ^ 30 \<and>
   recommend_lifecycle_policy example_config ''tiny-bucket'' (2 ^ 29) 12 = Inr (None, 0)"
proof -
  have h: "(2::real) ^ 29 < 2 ^ 30" by simp
  show ?thesis using h recommend_below_threshold [OF h, of example_config "''tiny-bucket''" 12]
    by simp
qed

text \<open>
  C4. For a size of at least 1 GB the savings returned are the current cost (size in GB
  times the configured standard rate) minus the size in GB times the unit cost of the
  matched strategy, and the savings percentage recorded is the constant 83, 96 or 89
  fixed by the name match alone: neither the size nor the rate enters it.
\<close>

theorem recommend_savings:
  assumes "2 ^ 30 \<le> size_bytes" and "storage_costs config ''standard'' = Some rate"
  shows "\<exists>r. recommend_lifecycle_policy config bucket_name size_bytes object_count =
           Inr (Some r,
             size_bytes / 2 ^ 30 * rate
             - size_bytes / 2 ^ 30 *
               (if str_contains ''log'' (lower bucket_name)
                   \<or> str_contains ''backup'' (lower bucket_name) then 4 / 1000
                else if str_contains ''archive'' (lower bucket_name) then 99 / 100000
                else 25 / 10000))
         \<and> calculate_current_cost config size_bytes ''standard'' =
             Inr (size_bytes / 2 ^ 30 * rate)
         \<and> savings_percentage r =
             (if str_contains ''log'' (lower bucket_name)
                   \<or> str_contains ''backup'' (lower bucket_name) then 83
              else if str_contains ''archive'' (lower bucket_name) then 96
              else 89)"
proof -
  have "\<not> size_bytes / 1024 ^ 3 < 1" using assms(1) by simp
  then show ?thesis
    using assms(2)
    by (simp add: recommend_lifecycle_policy_def calculate_current_cost_def Let_def)
qed

theorem recommend_savings_witness:
  "(2::real) ^ 30 \<le> 100 * 2 ^ 30 \<and>
   storage_costs example_config ''standard'' = Some (23 / 1000) \<and>
   (\<exists>r. recommend_lifecycle_policy example_config ''media-assets'' (100 * 2 ^ 30) 7 =
          Inr (Some r, 205 / 100)
        \<and> savings_percentage r = 89)"
proof -
  have h1: "(2::real) ^ 30 \<le> 100 * 2 ^ 30" by simp
  have h2: "storage_costs example_config ''standard'' = Some (23 / 1000)"
    by (simp add: example_config_def)
  have n1: "\<not> str_contains ''log'' (lower ''media-assets'')" by code_simp
  have n2: "\<not> str_contains ''backup'' (lower ''media-assets'')" by code_simp
  have n3: "\<not> str_contains ''archive'' (lower ''media-assets'')" by code_simp
  show ?thesis
    using h1 h2 n1 n2 n3 recommend_savings [OF h1 h2, of "''media-assets''" 7]
    by auto
qed

text \<open>
  C5. \<open>calculate_current_cost\<close> is the size over \<open>2 ^ 30\<close> times the configured cost per
  GB of the storage class; doubling the size doubles the cost, and scaling the size by
  \<open>k\<close> scales the cost by \<open>k\<close>.
\<close>

theorem calculate_current_cost_linear:
  assumes "storage_costs config storage_cls = Some cost_per_gb"
  shows "calculate_current_cost config size_bytes storage_cls =
           Inr (size_bytes / 2 ^ 30 * cost_per_gb)
       \<and> calculate_current_cost config (2 * size_bytes) storage_cls =
           Inr (2 * (size_bytes / 2 ^ 30 * cost_per_gb))
       \<and> calculate_current_cost config (k * size_bytes) storage_cls =
           Inr (k * (size_bytes / 2 ^ 30 * cost_per_gb))"
  using assms by (simp add: calculate_current_cost_def)

theorem calculate_current_cost_linear_witness:
  "storage_costs example_config ''standard'' = Some (23 / 1000) \<and>
   calculate_current_cost example_config (100 * 2 ^ 30) ''standard'' = Inr (23 / 10) \<and>
   calculate_current_cost example_config (2 * (100 * 2 ^ 30)) ''standard'' = Inr (46 / 10)"
proof -
  have h: "storage_costs example_config ''standard'' = Some (23 / 1000)"
    by (simp add: example_config_def)
  show ?thesis
    using h calculate_current_cost_linear [OF h, of "100 * 2 ^ 30" 1]
    by simp
qed

text \<open>
  With a standard rate above 0.004 per GB the savings of a recommendation are positive,
  so adding them increases a total.
\<close>

lemma recommend_savings_positive:
  assumes "2 ^ 30 \<le> size_bytes" and "storage_costs config ''standard'' = Some rate"
    and "4 / 1000 < rate"
    and "recommend_lifecycle_policy config bucket_name size_bytes object_count = Inr (r, s)"
  shows "0 < s"
proof -
  have nb: "\<not> size_bytes / 1024 ^ 3 < 1" using assms(1) by simp
  have pos: "0 < size_bytes / 2 ^ 30"
  proof -
    have "(0::real) < 2 ^ 30" by simp
    with assms(1) have "0 < size_bytes" by linarith
    then show ?thesis by simp
  qed
  obtain u where s: "s = size_bytes / 2 ^ 30 * (rate - u)" and u: "u \<le> 4 / 1000"
  proof -
    have "s = size_bytes / 2 ^ 30 * (rate - 4 / 1000)
        \<or> s = size_bytes / 2 ^ 30 * (rate - 99 / 100000)
        \<or> s = size_bytes / 2 ^ 30 * (rate - 25 / 10000)"
      using assms(2,4) nb
      by (auto simp: recommend_lifecycle_policy_def calculate_current_cost_def Let_def
            right_diff_distrib split: if_splits)
    then consider "s = size_bytes / 2 ^ 30 * (rate - 4 / 1000)"
      | "s = size_bytes / 2 ^ 30 * (rate - 99 / 100000)"
      | "s = size_bytes / 2 ^ 30 * (rate - 25 / 10000)" by blast
    then show ?thesis
    proof cases
      case 1
      show ?thesis by (rule that [OF 1]) simp
    next
      case 2
      show ?thesis by (rule that [OF 2]) simp
    next
      case 3
      show ?thesis by (rule that [OF 3]) simp
    qed
  qed
  from u assms(3) have "0 < rate - u" by linarith
  with pos show ?thesis unfolding s by (rule mult_pos_pos)
qed

subsection \<open>Policy documents\<close>

lemma foldl_append_rules:
  "foldl (\<lambda>rules (i, transition). rules @ [f i transition]) acc (enumerate k ts) =
     acc @ map (\<lambda>(i, transition). f i transition) (enumerate k ts)"
  by (induction ts arbitrary: acc k) simp_all

lemma generate_lifecycle_policy_map:
  "Rules (generate_lifecycle_policy recommendation) =
     map (\<lambda>(i, transition).
            \<lparr>Id' = ''OptimizationRule'' @ str_of_nat (i + 1), Status = ''Enabled'',
             Transitions = [\<lparr>Days = days transition,
                              StorageClass = storage_class transition\<rparr>]\<rparr>)
         (enumerate 0 (transitions recommendation))"
  unfolding generate_lifecycle_policy_def Let_def
  by (simp add: foldl_append_rules)

text \<open>
  C6. For a recommendation with N transitions the policy document has exactly N rules,
  in the order of the transitions; rule \<open>i\<close> (counted from 0 here, so \<open>i + 1\<close> in the
  identifier) is named OptimizationRule followed by the decimal digits of \<open>i + 1\<close>, has
  status Enabled and one transition with the day offset and storage class of
  transition \<open>i\<close>. The function has no world argument: it has no effect.
\<close>

theorem generate_lifecycle_policy_rules:
  "length (Rules (generate_lifecycle_policy recommendation)) =
     length (transitions recommendation)
   \<and> (\<forall>i < length (transitions recommendation).
        Rules (generate_lifecycle_policy recommendation) ! i =
          \<lparr>Id' = ''OptimizationRule'' @ str_of_nat (i + 1), Status = ''Enabled'',
           Transitions = [\<lparr>Days = days (transitions recommendation ! i),
                            StorageClass = storage_class (transitions recommendation ! i)\<rparr>]\<rparr>)"
  by (simp add: generate_lifecycle_policy_map nth_enumerate_eq)

theorem generate_lifecycle_policy_rules_witness:
  "(1::nat) < length (transitions example_recommendation)
   \<and> length (Rules (generate_lifecycle_policy example_recommendation)) = 2
   \<and> Rules (generate_lifecycle_policy example_recommendation) ! 1 =
       \<lparr>Id' = ''OptimizationRule2'', Status = ''Enabled'',
        Transitions = [\<lparr>Days = 90, StorageClass = ''GLACIER_IR''\<rparr>]\<rparr>"
proof -
  have h: "(1::nat) < length (transitions example_recommendation)"
    by (simp add: example_recommendation_def)
  have d: "str_of_nat (1 + 1) = ''2''" by code_simp
  from generate_lifecycle_policy_rules [of example_recommendation] h
  have "length (Rules (generate_lifecycle_policy example_recommendation)) =
          length (transitions example_recommendation)"
    and "Rules (generate_lifecycle_policy example_recommendation) ! 1 =
       \<lparr>Id' = ''OptimizationRule'' @ str_of_nat (1 + 1), Status = ''Enabled'',
        Transitions = [\<lparr>Days = days (transitions example_recommendation ! 1),
                         StorageClass = storage_class (transitions example_recommendation ! 1)\<rparr>]\<rparr>"
    by blast+
  then show ?thesis using h d by (simp add: example_recommendation_def)
qed

subsection \<open>The audit loop\<close>

lemma fst_get_bucket_lifecycle_calls [simp]:
  "fst (get_bucket_lifecycle n (w\<lparr>calls := c\<rparr>)) = fst (get_bucket_lifecycle n w)"
  by (simp add: get_bucket_lifecycle_def Let_def split: lifecycle_response.splits)

lemma fst_get_bucket_size_calls [simp]:
  "fst (get_bucket_size n (w\<lparr>calls := c\<rparr>)) = fst (get_bucket_size n w)"
  by (simp add: get_bucket_size_def Let_def split: metric_response.splits list.splits)

lemma fst_get_bucket_object_count_calls [simp]:
  "fst (get_bucket_object_count n (w\<lparr>calls := c\<rparr>)) = fst (get_bucket_object_count n w)"
  by (simp add: get_bucket_object_count_def Let_def split: metric_response.splits list.splits)

lemma snd_get_bucket_lifecycle:
  "snd (get_bucket_lifecycle n w) = w\<lparr>calls := calls w @ [GetBucketLifecycleConfiguration n]\<rparr>"
  by (simp add: get_bucket_lifecycle_def Let_def split: lifecycle_response.splits)

lemma snd_get_bucket_size:
  "snd (get_bucket_size n w) =
     w\<lparr>calls := calls w @ [GetMetricStatistics ''BucketSizeBytes'' n ''StandardStorage'']\<rparr>"
  by (simp add: get_bucket_size_def Let_def split: metric_response.splits list.splits)

lemma snd_get_bucket_object_count:
  "snd (get_bucket_object_count n w) =
     w\<lparr>calls := calls w @ [GetMetricStatistics ''NumberOfObjects'' n ''AllStorageTypes'']\<rparr>"
  by (simp add: get_bucket_object_count_def Let_def split: metric_response.splits list.splits)

lemma round2_zero [simp]: "round2 0 = 0"
  by (simp add: round2_def round_half_even_def)

lemma get_bucket_lifecycle_returns:
  "''NoSuchLifecycleConfiguration'' \<in> exceptions (provider w) \<Longrightarrow>
     \<exists>lifecycle. fst (get_bucket_lifecycle n w) = Inr lifecycle"
  by (simp add: get_bucket_lifecycle_def Let_def split: lifecycle_response.splits)

lemma get_bucket_lifecycle_escapes:
  assumes "''NoSuchLifecycleConfiguration'' \<notin> exceptions (provider w)"
    and "get_bucket_lifecycle_configuration (provider w) n = NoSuchLifecycleConfiguration
         \<or> get_bucket_lifecycle_configuration (provider w) n = LifecycleError"
  shows "fst (get_bucket_lifecycle n w) = Inl (AttributeError ''NoSuchLifecycleConfiguration'')"
  using assms by (auto simp add: get_bucket_lifecycle_def Let_def)

text \<open>The loop body when the lifecycle read escapes: the audit of the bucket stops there.\<close>

lemma audit_bucket_abort:
  assumes "fst (get_bucket_lifecycle n w) = Inl e"
  shows "audit_bucket config n st w =
           (Inl e, w\<lparr>calls := calls w @ [GetBucketLifecycleConfiguration n]\<rparr>)"
proof -
  obtain r w1 where a: "get_bucket_lifecycle n w = (r, w1)" by (cases "get_bucket_lifecycle n w")
  have w1: "w1 = w\<lparr>calls := calls w @ [GetBucketLifecycleConfiguration n]\<rparr>"
    using snd_get_bucket_lifecycle [of n w] a by simp
  from a assms have "r = Inl e" by simp
  with a w1 show ?thesis by (simp add: audit_bucket_def)
qed

text \<open>
  The loop body when the lifecycle read returns, written with the three reads taken
  from the incoming world.
\<close>

lemma audit_bucket_unfold:
  assumes "fst (get_bucket_lifecycle n w) = Inr lifecycle"
  shows "audit_bucket config n st w =
     (let size_bytes = fst (get_bucket_size n w);
          object_count = fst (get_bucket_object_count n w);
          w3 = w\<lparr>calls := calls w @
                 [GetBucketLifecycleConfiguration n,
                  GetMetricStatistics ''BucketSizeBytes'' n ''StandardStorage'',
                  GetMetricStatistics ''NumberOfObjects'' n ''AllStorageTypes'']\<rparr>
      in
      case calculate_current_cost config size_bytes ''standard'' of
        Inl e \<Rightarrow> (Inl e, w3)
      | Inr current_cost \<Rightarrow>
          (case (if lifecycle = None \<and> 2 ^ 30 < size_bytes
                 then recommend_lifecycle_policy config n size_bytes object_count
                 else Inr (None, 0)) of
             Inl e \<Rightarrow> (Inl e, w3)
           | Inr (recommendation, savings) \<Rightarrow>
               (Inr \<lparr>audit_results = audit_results st @
                        [\<lparr>bucket_name_col = n,
                          size_gb_col = round2 (size_bytes / 2 ^ 30),
                          object_count_col = object_count,
                          has_lifecycle_col = (lifecycle \<noteq> None),
                          current_cost_col = round2 current_cost,
                          recommendation_col =
                            (case recommendation of Some r \<Rightarrow> strategy r | None \<Rightarrow> ''N/A''),
                          potential_savings_col = round2 savings\<rparr>],
                      total_size = total_size st + size_bytes,
                      total_cost = total_cost st + current_cost,
                      total_savings =
                        (case recommendation of Some r \<Rightarrow> total_savings st + savings
                         | None \<Rightarrow> total_savings st),
                      buckets_without_lifecycle =
                        (case recommendation of Some r \<Rightarrow> buckets_without_lifecycle st + 1
                         | None \<Rightarrow> buckets_without_lifecycle st)\<rparr>,
                w3)))"
proof -
  obtain r w1 where a0: "get_bucket_lifecycle n w = (r, w1)" by (cases "get_bucket_lifecycle n w")
  with assms have a: "get_bucket_lifecycle n w = (Inr lifecycle, w1)" by simp
  obtain sz w2 where b: "get_bucket_size n w1 = (sz, w2)" by (cases "get_bucket_size n w1")
  obtain oc w3 where c: "get_bucket_object_count n w2 = (oc, w3)"
    by (cases "get_bucket_object_count n w2")
  have w1: "w1 = w\<lparr>calls := calls w @ [GetBucketLifecycleConfiguration n]\<rparr>"
    using snd_get_bucket_lifecycle [of n w] a by simp
  have w2: "w2 = w1\<lparr>calls := calls w1 @
                 [GetMetricStatistics ''BucketSizeBytes'' n ''StandardStorage'']\<rparr>"
    using snd_get_bucket_size [of n w1] b by simp
  have w3: "w3 = w2\<lparr>calls := calls w2 @
                 [GetMetricStatistics ''NumberOfObjects'' n ''AllStorageTypes'']\<rparr>"
    using snd_get_bucket_object_count [of n w2] c by simp
  have sz: "fst (get_bucket_size n w) = sz"
  proof -
    have "fst (get_bucket_size n w1) = sz" by (simp add: b)
    then show ?thesis unfolding w1 by simp
  qed
  have oc: "fst (get_bucket_object_count n w) = oc"
  proof -
    have "fst (get_bucket_object_count n w2) = oc" by (simp add: c)
    then show ?thesis unfolding w2 w1 by simp
  qed
  have w3': "w3 = w\<lparr>calls := calls w @
                 [GetBucketLifecycleConfiguration n,
                  GetMetricStatistics ''BucketSizeBytes'' n ''StandardStorage'',
                  GetMetricStatistics ''NumberOfObjects'' n ''AllStorageTypes'']\<rparr>"
    unfolding w3 w2 w1 by simp
  have gate: "(1 < sz / 1024 ^ 3) = (2 ^ 30 < sz)" by simp
  show ?thesis
  proof (cases "calculate_current_cost config sz ''standard''")
    case (Inl e)
    then show ?thesis
      unfolding audit_bucket_def a b c sz oc Let_def prod.case sum.case w3' [symmetric] by simp
  next
    case cc: (Inr current_cost)
    show ?thesis
    proof (cases "lifecycle = None \<and> 2 ^ 30 < sz")
      case False
      then show ?thesis
        unfolding audit_bucket_def a b c sz oc Let_def prod.case sum.case gate w3' [symmetric] cc
        by (auto intro!: audit_state.equality)
    next
      case True
      show ?thesis
      proof (cases "recommend_lifecycle_policy config n sz oc")
        case (Inl e)
        with True show ?thesis
          unfolding audit_bucket_def a b c sz oc Let_def prod.case sum.case gate w3' [symmetric] cc
          by simp
      next
        case (Inr p)
        obtain recommendation savings where p: "p = (recommendation, savings)" by (cases p)
        show ?thesis
        proof (cases recommendation)
          case None
          with True Inr p show ?thesis
            unfolding audit_bucket_def a b c sz oc Let_def prod.case sum.case gate w3' [symmetric] cc
            by (auto intro!: audit_state.equality)
        next
          case (Some r)
          with True Inr p show ?thesis
            unfolding audit_bucket_def a b c sz oc Let_def prod.case sum.case gate w3' [symmetric] cc
            by (auto intro!: audit_state.equality)
        qed
      qed
    qed
  qed
qed

lemma recommend_some:
  assumes "2 ^ 30 \<le> size_bytes" and "storage_costs config ''standard'' = Some rate"
  shows "\<exists>r s. recommend_lifecycle_policy config bucket_name size_bytes object_count =
           Inr (Some r, s)"
proof -
  have "\<not> size_bytes / 1024 ^ 3 < 1" using assms(1) by simp
  then show ?thesis
    using assms(2)
    by (simp add: recommend_lifecycle_policy_def calculate_current_cost_def Let_def)
qed

lemma audit_bucket_step:
  fixes w :: world and config :: config and G S P
  defines "G \<equiv> \<lambda>n. fst (get_bucket_lifecycle n w) = Inr None
                     \<and> 2 ^ 30 < fst (get_bucket_size n w)"
  defines "S \<equiv> \<lambda>n. case recommend_lifecycle_policy config n (fst (get_bucket_size n w))
                          (fst (get_bucket_object_count n w)) of
                      Inr (r, s) \<Rightarrow> s | Inl e \<Rightarrow> 0"
  defines "P \<equiv> \<lambda>n rec. bucket_name_col rec = n
      \<and> has_lifecycle_col rec = (fst (get_bucket_lifecycle n w) \<noteq> Inr None)
      \<and> (if G n
          then \<exists>r s. recommend_lifecycle_policy config n (fst (get_bucket_size n w))
                        (fst (get_bucket_object_count n w)) = Inr (Some r, s)
                 \<and> recommendation_col rec = strategy r
                 \<and> potential_savings_col rec = round2 s
          else recommendation_col rec = ''N/A'' \<and> potential_savings_col rec = 0)"
  assumes cfg: "storage_costs config ''standard'' = Some rate"
    and ret: "fst (get_bucket_lifecycle n w) = Inr lifecycle"
  shows "\<exists>st' rec. audit_bucket config n st w =
           (Inr st', w\<lparr>calls := calls w @
                 [GetBucketLifecycleConfiguration n,
                  GetMetricStatistics ''BucketSizeBytes'' n ''StandardStorage'',
                  GetMetricStatistics ''NumberOfObjects'' n ''AllStorageTypes'']\<rparr>)
         \<and> audit_results st' = audit_results st @ [rec] \<and> P n rec
         \<and> buckets_without_lifecycle st' =
             buckets_without_lifecycle st + (if G n then 1 else 0)
         \<and> total_savings st' = total_savings st + (if G n then S n else 0)
         \<and> total_size st' = total_size st + fst (get_bucket_size n w)
         \<and> total_cost st' = total_cost st + fst (get_bucket_size n w) / 2 ^ 30 * rate"
proof -
  have cc: "calculate_current_cost config (fst (get_bucket_size n w)) ''standard'' =
              Inr (fst (get_bucket_size n w) / 2 ^ 30 * rate)"
    using cfg by (simp add: calculate_current_cost_def)
  have Gn: "G n = (lifecycle = None \<and> 2 ^ 30 < fst (get_bucket_size n w))"
    by (simp add: G_def ret)
  show ?thesis
  proof (cases "G n")
    case True
    then have "2 ^ 30 \<le> fst (get_bucket_size n w)" by (simp add: G_def)
    from recommend_some [OF this cfg]
    obtain r s where rs: "recommend_lifecycle_policy config n (fst (get_bucket_size n w))
                        (fst (get_bucket_object_count n w)) = Inr (Some r, s)"
      by blast
    from True have g: "lifecycle = None \<and> 2 ^ 30 < fst (get_bucket_size n w)"
      by (simp add: Gn)
    show ?thesis
      unfolding audit_bucket_unfold [OF ret] Let_def cc
      using True g rs by (simp add: P_def S_def ret)
  next
    case False
    then have g: "\<not> (lifecycle = None \<and> 2 ^ 30 < fst (get_bucket_size n w))"
      by (simp add: Gn)
    show ?thesis
      unfolding audit_bucket_unfold [OF ret] Let_def cc
      using False g by (auto simp add: P_def ret)
  qed
qed

lemma fst_get_bucket_lifecycle_provider:
  "provider w = provider w0 \<Longrightarrow>
     fst (get_bucket_lifecycle n w) = fst (get_bucket_lifecycle n w0)"
  by (simp add: get_bucket_lifecycle_def Let_def split: lifecycle_response.splits)

lemma fst_get_bucket_size_provider:
  "provider w = provider w0 \<Longrightarrow> fst (get_bucket_size n w) = fst (get_bucket_size n w0)"
  by (simp add: get_bucket_size_def Let_def split: metric_response.splits list.splits)

lemma fst_get_bucket_object_count_provider:
  "provider w = provider w0 \<Longrightarrow>
     fst (get_bucket_object_count n w) = fst (get_bucket_object_count n w0)"
  by (simp add: get_bucket_object_count_def Let_def split: metric_response.splits list.splits)

lemma audit_loop_result:
  fixes w0 :: world and config :: config and G S P
  defines "G \<equiv> \<lambda>n. fst (get_bucket_lifecycle n w0) = Inr None
                     \<and> 2 ^ 30 < fst (get_bucket_size n w0)"
  defines "S \<equiv> \<lambda>n. case recommend_lifecycle_policy config n (fst (get_bucket_size n w0))
                          (fst (get_bucket_object_count n w0)) of
                      Inr (r, s) \<Rightarrow> s | Inl e \<Rightarrow> 0"
  defines "P \<equiv> \<lambda>n rec. bucket_name_col rec = n
      \<and> has_lifecycle_col rec = (fst (get_bucket_lifecycle n w0) \<noteq> Inr None)
      \<and> (if G n
          then \<exists>r s. recommend_lifecycle_policy config n (fst (get_bucket_size n w0))
                        (fst (get_bucket_object_count n w0)) = Inr (Some r, s)
                 \<and> recommendation_col rec = strategy r
                 \<and> potential_savings_col rec = round2 s
          else recommendation_col rec = ''N/A'' \<and> potential_savings_col rec = 0)"
  assumes cfg: "storage_costs config ''standard'' = Some rate"
  shows "provider w = provider w0 \<Longrightarrow>
         \<forall>n \<in> set names. \<exists>lifecycle. fst (get_bucket_lifecycle n w0) = Inr lifecycle \<Longrightarrow>
         \<exists>st' recs. audit_loop config names st w =
           (Inr st', w\<lparr>calls := calls w @ concat (map (\<lambda>n.
                 [GetBucketLifecycleConfiguration n,
                  GetMetricStatistics ''BucketSizeBytes'' n ''StandardStorage'',
                  GetMetricStatistics ''NumberOfObjects'' n ''AllStorageTypes'']) names)\<rparr>)
         \<and> audit_results st' = audit_results st @ recs \<and> list_all2 P names recs
         \<and> buckets_without_lifecycle st' =
             buckets_without_lifecycle st + int (length (filter G names))
         \<and> total_savings st' = total_savings st + sum_list (map S (filter G names))"
proof (induction names arbitrary: st w)
  case Nil
  then show ?case by simp
next
  case (Cons n names)
  let ?w1 = "w\<lparr>calls := calls w @
                 [GetBucketLifecycleConfiguration n,
                  GetMetricStatistics ''BucketSizeBytes'' n ''StandardStorage'',
                  GetMetricStatistics ''NumberOfObjects'' n ''AllStorageTypes'']\<rparr>"
  note pw = Cons.prems(1)
  have lc: "fst (get_bucket_lifecycle n w) = fst (get_bucket_lifecycle n w0)"
    by (rule fst_get_bucket_lifecycle_provider [OF pw])
  have sz: "fst (get_bucket_size n w) = fst (get_bucket_size n w0)"
    by (rule fst_get_bucket_size_provider [OF pw])
  have oc: "fst (get_bucket_object_count n w) = fst (get_bucket_object_count n w0)"
    by (rule fst_get_bucket_object_count_provider [OF pw])
  from Cons.prems(2) obtain lifecycle where "fst (get_bucket_lifecycle n w0) = Inr lifecycle"
    by auto
  then have ret: "fst (get_bucket_lifecycle n w) = Inr lifecycle" by (simp add: lc)
  have rest: "\<forall>n \<in> set names. \<exists>lifecycle. fst (get_bucket_lifecycle n w0) = Inr lifecycle"
    using Cons.prems(2) by simp
  from audit_bucket_step [OF cfg ret, of st]
  obtain st1 rec where step: "audit_bucket config n st w = (Inr st1, ?w1)"
    and res1: "audit_results st1 = audit_results st @ [rec]"
    and P1: "P n rec"
    and cnt1: "buckets_without_lifecycle st1 =
                 buckets_without_lifecycle st + (if G n then 1 else 0)"
    and sav1: "total_savings st1 = total_savings st + (if G n then S n else 0)"
    unfolding lc sz oc P_def G_def S_def by blast
  have pw1: "provider ?w1 = provider w0" using pw by simp
  from Cons.IH [OF pw1 rest, of st1]
  obtain st' recs where loop: "audit_loop config names st1 ?w1 =
        (Inr st', ?w1\<lparr>calls := calls ?w1 @ concat (map (\<lambda>n.
                 [GetBucketLifecycleConfiguration n,
                  GetMetricStatistics ''BucketSizeBytes'' n ''StandardStorage'',
                  GetMetricStatistics ''NumberOfObjects'' n ''AllStorageTypes'']) names)\<rparr>)"
    and res: "audit_results st' = audit_results st1 @ recs"
    and Ps: "list_all2 P names recs"
    and cnt: "buckets_without_lifecycle st' =
                buckets_without_lifecycle st1 + int (length (filter G names))"
    and sav: "total_savings st' = total_savings st1 + sum_list (map S (filter G names))"
    by blast
  have a: "audit_loop config (n # names) st w =
        (Inr st', w\<lparr>calls := calls w @ concat (map (\<lambda>n.
                 [GetBucketLifecycleConfiguration n,
                  GetMetricStatistics ''BucketSizeBytes'' n ''StandardStorage'',
                  GetMetricStatistics ''NumberOfObjects'' n ''AllStorageTypes'']) (n # names))\<rparr>)"
    using step loop by simp
  have b: "audit_results st' = audit_results st @ (rec # recs)"
    using res res1 by simp
  have c: "list_all2 P (n # names) (rec # recs)" using P1 Ps by simp
  have d: "buckets_without_lifecycle st' =
             buckets_without_lifecycle st + int (length (filter G (n # names)))"
    using cnt cnt1 by simp
  have e: "total_savings st' = total_savings st + sum_list (map S (filter G (n # names)))"
    using sav sav1 by simp
  from a b c d e show ?case by blast
qed

text \<open>
  A lifecycle read that escapes ends the loop: the buckets before it have been read,
  no record is returned.
\<close>

lemma audit_loop_abort:
  assumes cfg: "storage_costs config ''standard'' = Some rate"
    and before: "\<forall>n \<in> set done. \<exists>lifecycle. fst (get_bucket_lifecycle n w) = Inr lifecycle"
    and esc: "fst (get_bucket_lifecycle b w) = Inl e"
  shows "audit_loop config (done @ b # rest) st w =
           (Inl e, w\<lparr>calls := calls w @ concat (map (\<lambda>n.
                 [GetBucketLifecycleConfiguration n,
                  GetMetricStatistics ''BucketSizeBytes'' n ''StandardStorage'',
                  GetMetricStatistics ''NumberOfObjects'' n ''AllStorageTypes'']) done)
                 @ [GetBucketLifecycleConfiguration b]\<rparr>)"
  using before esc
proof (induction "done" arbitrary: st w)
  case Nil
  from audit_bucket_abort [OF Nil.prems(2), of config st]
  show ?case by simp
next
  case (Cons n ns)
  let ?w1 = "w\<lparr>calls := calls w @
                 [GetBucketLifecycleConfiguration n,
                  GetMetricStatistics ''BucketSizeBytes'' n ''StandardStorage'',
                  GetMetricStatistics ''NumberOfObjects'' n ''AllStorageTypes'']\<rparr>"
  from Cons.prems(1) obtain lifecycle where ret: "fst (get_bucket_lifecycle n w) = Inr lifecycle"
    by auto
  from audit_bucket_step [OF cfg ret, of st]
  obtain st1 where step: "audit_bucket config n st w = (Inr st1, ?w1)" by blast
  have b1: "\<forall>n \<in> set ns. \<exists>lifecycle. fst (get_bucket_lifecycle n ?w1) = Inr lifecycle"
    using Cons.prems(1) by simp
  have e1: "fst (get_bucket_lifecycle b ?w1) = Inl e" using Cons.prems(2) by simp
  from Cons.IH [OF b1 e1, of st1] step show ?case by simp
qed

lemma audit_summary_result:
  assumes listing: "list_buckets (provider w) = Inr names"
    and cfg: "storage_costs config ''standard'' = Some rate"
    and reads: "\<forall>n \<in> set names. \<exists>lifecycle. fst (get_bucket_lifecycle n w) = Inr lifecycle"
  shows "\<exists>st. audit_summary config w =
           (Inr st, w\<lparr>calls := calls w @ ListBuckets # concat (map (\<lambda>n.
                 [GetBucketLifecycleConfiguration n,
                  GetMetricStatistics ''BucketSizeBytes'' n ''StandardStorage'',
                  GetMetricStatistics ''NumberOfObjects'' n ''AllStorageTypes'']) names)\<rparr>)
         \<and> list_all2 (\<lambda>n rec. bucket_name_col rec = n
              \<and> has_lifecycle_col rec = (fst (get_bucket_lifecycle n w) \<noteq> Inr None)
              \<and> (if fst (get_bucket_lifecycle n w) = Inr None \<and> 2 ^ 30 < fst (get_bucket_size n w)
                  then \<exists>r s. recommend_lifecycle_policy config n (fst (get_bucket_size n w))
                                (fst (get_bucket_object_count n w)) = Inr (Some r, s)
                         \<and> recommendation_col rec = strategy r
                         \<and> potential_savings_col rec = round2 s
                  else recommendation_col rec = ''N/A'' \<and> potential_savings_col rec = 0))
             names (audit_results st)
         \<and> buckets_without_lifecycle st =
             int (length (filter (\<lambda>n. fst (get_bucket_lifecycle n w) = Inr None
                                      \<and> 2 ^ 30 < fst (get_bucket_size n w)) names))
         \<and> total_savings st =
             sum_list (map (\<lambda>n. case recommend_lifecycle_policy config n
                                      (fst (get_bucket_size n w))
                                      (fst (get_bucket_object_count n w)) of
                                  Inr (r, s) \<Rightarrow> s | Inl e \<Rightarrow> 0)
                        (filter (\<lambda>n. fst (get_bucket_lifecycle n w) = Inr None
                                      \<and> 2 ^ 30 < fst (get_bucket_size n w)) names))"
proof -
  let ?w0 = "w\<lparr>calls := calls w @ [ListBuckets]\<rparr>"
  let ?st0 = "\<lparr>audit_results = [], total_size = 0, total_cost = 0, total_savings = 0,
               buckets_without_lifecycle = 0\<rparr>"
  have pw: "provider ?w0 = provider w" by simp
  have unf: "audit_summary config w = audit_loop config names ?st0 ?w0"
    using listing by (simp add: audit_summary_def get_all_buckets_def)
  from audit_loop_result [OF cfg pw reads, of ?st0]
  show ?thesis unfolding unf by simp
qed


text \<open>The reads of the example world.\<close>

lemma example_lifecycle:
  "fst (get_bucket_lifecycle ''prod-logs-archive'' example_world) = Inr None"
  "fst (get_bucket_lifecycle ''tiny-bucket'' example_world) = Inr None"
  "fst (get_bucket_lifecycle ''media-assets'' example_world) = Inr (Some [])"
  "fst (get_bucket_lifecycle ''edge-archive'' example_world) = Inr None"
  "fst (get_bucket_lifecycle ''new-backup'' example_world) = Inr None"
  "fst (get_bucket_lifecycle ''lost-logs'' example_world) = Inr None"
  by (simp_all add: get_bucket_lifecycle_def example_world_def example_provider_def)


lemma example_reads:
  "\<forall>n \<in> set [''prod-logs-archive'', ''tiny-bucket'', ''media-assets'', ''edge-archive'',
               ''new-backup'', ''lost-logs''].
     \<exists>lifecycle. fst (get_bucket_lifecycle n example_world) = Inr lifecycle"
  by (simp add: example_lifecycle)

lemma example_listing:
  "list_buckets (provider example_world) =
     Inr [''prod-logs-archive'', ''tiny-bucket'', ''media-assets'', ''edge-archive'',
          ''new-backup'', ''lost-logs'']"
  by (simp add: example_world_def example_provider_def)

lemma example_rate: "storage_costs example_config ''standard'' = Some (23 / 1000)"
  by (simp add: example_config_def)



lemma audit_buckets_result:
  assumes listing: "list_buckets (provider w) = Inr names"
    and cfg: "storage_costs config ''standard'' = Some rate"
    and reads: "\<forall>n \<in> set names. \<exists>lifecycle. fst (get_bucket_lifecycle n w) = Inr lifecycle"
  shows "\<exists>results. audit_buckets config w =
           (Inr results, w\<lparr>calls := calls w @ ListBuckets # concat (map (\<lambda>n.
                 [GetBucketLifecycleConfiguration n,
                  GetMetricStatistics ''BucketSizeBytes'' n ''StandardStorage'',
                  GetMetricStatistics ''NumberOfObjects'' n ''AllStorageTypes'']) names)\<rparr>)
         \<and> map bucket_name_col results = names"
proof -
  from audit_summary_result [OF listing cfg reads]
  obtain st where run: "audit_summary config w =
           (Inr st, w\<lparr>calls := calls w @ ListBuckets # concat (map (\<lambda>n.
                 [GetBucketLifecycleConfiguration n,
                  GetMetricStatistics ''BucketSizeBytes'' n ''StandardStorage'',
                  GetMetricStatistics ''NumberOfObjects'' n ''AllStorageTypes'']) names)\<rparr>)"
    and recs: "list_all2 (\<lambda>n rec. bucket_name_col rec = n
              \<and> has_lifecycle_col rec = (fst (get_bucket_lifecycle n w) \<noteq> Inr None)
              \<and> (if fst (get_bucket_lifecycle n w) = Inr None \<and> 2 ^ 30 < fst (get_bucket_size n w)
                  then \<exists>r s. recommend_lifecycle_policy config n (fst (get_bucket_size n w))
                                (fst (get_bucket_object_count n w)) = Inr (Some r, s)
                         \<and> recommendation_col rec = strategy r
                         \<and> potential_savings_col rec = round2 s
                  else recommendation_col rec = ''N/A'' \<and> potential_savings_col rec = 0))
             names (audit_results st)"
    by blast
  have "list_all2 (\<lambda>n rec. bucket_name_col rec = n) names (audit_results st)"
    by (rule list_all2_mono [OF recs]) blast
  then have "map bucket_name_col (audit_results st) = names"
    by (induction rule: list_all2_induct) simp_all
  with run show ?thesis by (simp add: audit_buckets_def)
qed

subsection \<open>Errors of the per-bucket reads\<close>

text \<open>The size read and the object-count read turn an error or an empty window into zero.\<close>

lemma metric_reads_degrade:
  "(get_metric_statistics (provider w) ''BucketSizeBytes'' n ''StandardStorage'' = MetricError
      \<longrightarrow> fst (get_bucket_size n w) = 0)
   \<and> (get_metric_statistics (provider w) ''BucketSizeBytes'' n ''StandardStorage'' = Datapoints []
      \<longrightarrow> fst (get_bucket_size n w) = 0)
   \<and> (get_metric_statistics (provider w) ''NumberOfObjects'' n ''AllStorageTypes'' = MetricError
      \<longrightarrow> fst (get_bucket_object_count n w) = 0)
   \<and> (get_metric_statistics (provider w) ''NumberOfObjects'' n ''AllStorageTypes'' = Datapoints []
      \<longrightarrow> fst (get_bucket_object_count n w) = 0)"
  by (simp add: get_bucket_size_def get_bucket_object_count_def Let_def)

text \<open>
  With a client that defines the class named in the first \<^verbatim>\<open>except\<close> clause, the
  lifecycle read turns ``not configured'' and every other error into the absent state,
  and the audit returns one record per listed bucket.
\<close>

lemma lifecycle_read_degrades_when_class_defined:
  assumes "''NoSuchLifecycleConfiguration'' \<in> exceptions (provider w)"
  shows "(get_bucket_lifecycle_configuration (provider w) n = NoSuchLifecycleConfiguration
            \<longrightarrow> fst (get_bucket_lifecycle n w) = Inr None)
       \<and> (get_bucket_lifecycle_configuration (provider w) n = LifecycleError
            \<longrightarrow> fst (get_bucket_lifecycle n w) = Inr None)"
  using assms by (simp add: get_bucket_lifecycle_def Let_def)

lemma audit_completes_when_class_defined:
  assumes "''NoSuchLifecycleConfiguration'' \<in> exceptions (provider w)"
    and "list_buckets (provider w) = Inr names"
    and "storage_costs config ''standard'' = Some rate"
  shows "\<exists>results w'. audit_buckets config w = (Inr results, w')
           \<and> length results = length names \<and> map bucket_name_col results = names"
proof -
  have "\<forall>n \<in> set names. \<exists>lifecycle. fst (get_bucket_lifecycle n w) = Inr lifecycle"
    using get_bucket_lifecycle_returns [OF assms(1)] by blast
  from audit_buckets_result [OF assms(2,3) this] obtain results w'
    where r: "audit_buckets config w = (Inr results, w')"
      and m: "map bucket_name_col results = names" by blast
  from m have "length results = length names" by (metis length_map)
  with r m show ?thesis by blast
qed

text \<open>
  With a client that does not define it, a lifecycle read that raises is not caught: the
  audit stops at the first listed bucket whose read raises and returns no record.
\<close>

lemma audit_buckets_abort:
  assumes listing: "list_buckets (provider w) = Inr (done @ b # rest)"
    and cfg: "storage_costs config ''standard'' = Some rate"
    and before: "\<forall>n \<in> set done. \<exists>lifecycle. fst (get_bucket_lifecycle n w) = Inr lifecycle"
    and esc: "fst (get_bucket_lifecycle b w) = Inl e"
  shows "audit_buckets config w =
           (Inl e, w\<lparr>calls := calls w @ ListBuckets # concat (map (\<lambda>n.
                 [GetBucketLifecycleConfiguration n,
                  GetMetricStatistics ''BucketSizeBytes'' n ''StandardStorage'',
                  GetMetricStatistics ''NumberOfObjects'' n ''AllStorageTypes'']) done)
                 @ [GetBucketLifecycleConfiguration b]\<rparr>)"
proof -
  let ?w0 = "w\<lparr>calls := calls w @ [ListBuckets]\<rparr>"
  let ?st0 = "\<lparr>audit_results = [], total_size = 0, total_cost = 0, total_savings = 0,
               buckets_without_lifecycle = 0\<rparr>"
  have unf: "audit_summary config w = audit_loop config (done @ b # rest) ?st0 ?w0"
    using listing by (simp add: audit_summary_def get_all_buckets_def)
  have b0: "\<forall>n \<in> set done. \<exists>lifecycle. fst (get_bucket_lifecycle n ?w0) = Inr lifecycle"
    using before by simp
  have e0: "fst (get_bucket_lifecycle b ?w0) = Inl e" using esc by simp
  from audit_loop_abort [OF cfg b0 e0, of rest ?st0]
  show ?thesis by (simp add: audit_buckets_def unf)
qed

text \<open>The audit of the example buckets through the client without the class.\<close>

lemma example_no_class:
  "''NoSuchLifecycleConfiguration'' \<notin> exceptions (provider example_world_no_class)"
  "get_bucket_lifecycle_configuration (provider example_world_no_class) ''prod-logs-archive'' =
     NoSuchLifecycleConfiguration"
  "get_bucket_lifecycle_configuration (provider example_world_no_class) ''tiny-bucket'' =
     LifecycleError"
  "list_buckets (provider example_world_no_class) =
     Inr [''prod-logs-archive'', ''tiny-bucket'', ''media-assets'', ''edge-archive'',
          ''new-backup'', ''lost-logs'']"
  "calls example_world_no_class = []"
  "config_files example_world_no_class ''config.yaml'' = Some example_config"
  by (simp_all add: example_world_no_class_def example_world_def example_provider_def)

lemma example_no_class_audit:
  "audit_buckets example_config example_world_no_class =
     (Inl (AttributeError ''NoSuchLifecycleConfiguration''),
      example_world_no_class
        \<lparr>calls := [ListBuckets, GetBucketLifecycleConfiguration ''prod-logs-archive'']\<rparr>)"
proof -
  have l: "list_buckets (provider example_world_no_class) =
       Inr ([] @ ''prod-logs-archive'' # [''tiny-bucket'', ''media-assets'', ''edge-archive'',
            ''new-backup'', ''lost-logs''])"
    by (simp add: example_no_class(4))
  have e1: "fst (get_bucket_lifecycle ''prod-logs-archive'' example_world_no_class) =
       Inl (AttributeError ''NoSuchLifecycleConfiguration'')"
    by (rule get_bucket_lifecycle_escapes [OF example_no_class(1)])
       (simp add: example_no_class(2))
  show ?thesis
    using audit_buckets_abort [OF l example_rate _ e1] by (simp add: example_no_class(5))
qed

text \<open>
  C9, at a failing input. The client of \<open>example_world_no_class\<close> defines no class
  \<^verbatim>\<open>NoSuchLifecycleConfiguration\<close>. The first listed bucket has no lifecycle
  configuration and the second one's read fails: both reads leave
  \<open>get_bucket_lifecycle\<close> with \<^verbatim>\<open>AttributeError\<close> instead of the absent state, and the
  audit of the six listed buckets ends with that error after the first read, with no
  record.
\<close>

theorem lifecycle_read_error_aborts_audit:
  "get_bucket_lifecycle_configuration (provider example_world_no_class) ''prod-logs-archive'' =
     NoSuchLifecycleConfiguration
   \<and> fst (get_bucket_lifecycle ''prod-logs-archive'' example_world_no_class) =
       Inl (AttributeError ''NoSuchLifecycleConfiguration'')
   \<and> get_bucket_lifecycle_configuration (provider example_world_no_class) ''tiny-bucket'' =
       LifecycleError
   \<and> fst (get_bucket_lifecycle ''tiny-bucket'' example_world_no_class) =
       Inl (AttributeError ''NoSuchLifecycleConfiguration'')
   \<and> list_buckets (provider example_world_no_class) =
       Inr [''prod-logs-archive'', ''tiny-bucket'', ''media-assets'', ''edge-archive'',
            ''new-backup'', ''lost-logs'']
   \<and> storage_costs example_config ''standard'' = Some (23 / 1000)
   \<and> audit_buckets example_config example_world_no_class =
       (Inl (AttributeError ''NoSuchLifecycleConfiguration''),
        example_world_no_class
          \<lparr>calls := [ListBuckets, GetBucketLifecycleConfiguration ''prod-logs-archive'']\<rparr>)"
proof -
  have e1: "fst (get_bucket_lifecycle ''prod-logs-archive'' example_world_no_class) =
       Inl (AttributeError ''NoSuchLifecycleConfiguration'')"
    by (rule get_bucket_lifecycle_escapes [OF example_no_class(1)])
       (simp add: example_no_class(2))
  have e2: "fst (get_bucket_lifecycle ''tiny-bucket'' example_world_no_class) =
       Inl (AttributeError ''NoSuchLifecycleConfiguration'')"
    by (rule get_bucket_lifecycle_escapes [OF example_no_class(1)])
       (simp add: example_no_class(3))
  from example_no_class(2,3,4) e1 e2 example_rate example_no_class_audit
  show ?thesis by blast
qed

subsection \<open>The threshold boundary\<close>



subsection \<open>Applying a policy\<close>

text \<open>In live mode the request is sent, and the result is the provider's answer.\<close>

lemma apply_live_contacts:
  "calls (snd (apply_lifecycle_policy bucket_name policy False w)) =
     calls w @ [PutBucketLifecycleConfiguration bucket_name policy]
   \<and> fst (apply_lifecycle_policy bucket_name policy False w) =
       put_accepted (provider w) bucket_name policy"
  by (simp add: apply_lifecycle_policy_def Let_def)

text \<open>
  C7. With the dry-run flag set, \<open>apply_lifecycle_policy\<close> returns success and the world
  it was given: no request is added to \<open>calls\<close> and the provider is unchanged, for every
  bucket name, policy document and world.
\<close>

theorem apply_dry_run_no_contact:
  "apply_lifecycle_policy bucket_name policy True w = (True, w)
   \<and> fst (apply_lifecycle_policy bucket_name policy True w)
   \<and> calls (snd (apply_lifecycle_policy bucket_name policy True w)) = calls w
   \<and> provider (snd (apply_lifecycle_policy bucket_name policy True w)) = provider w"
  by (simp add: apply_lifecycle_policy_def)

subsection \<open>The command surface\<close>

text \<open>
  C8. For every argument record and world, \<open>main\<close> in mode Audit and \<open>main\<close> in mode
  Recommend give the same result and the same final world. What that common behaviour
  is, stated for mode Recommend: without a configuration file the run fails before any
  request; otherwise the audit is run, whatever the output path, and an error of the
  audit is the result; when the audit returns and no output path (or an empty one) is
  given, the result is success in the world the audit left; with a non-empty path the
  records of the audit are written to it, or the write error is the result. When the
  listing succeeds, the standard rate is configured and the lifecycle reads return, the
  audit reads every listed bucket and returns one record per bucket.
\<close>

theorem audit_and_recommend_modes_agree:
  "main (args\<lparr>mode_arg := Audit\<rparr>) w = main (args\<lparr>mode_arg := Recommend\<rparr>) w
   \<and> (config_files w (config_arg args) = None
      \<longrightarrow> main (args\<lparr>mode_arg := Recommend\<rparr>) w = (Inl OSError, w))
   \<and> (config_files w (config_arg args) = Some config
        \<and> audit_buckets config w = (Inl e, w1)
      \<longrightarrow> main (args\<lparr>mode_arg := Recommend\<rparr>) w = (Inl e, w1))
   \<and> (config_files w (config_arg args) = Some config
        \<and> audit_buckets config w = (Inr results, w1)
        \<and> (output_arg args = None \<or> output_arg args = Some [])
      \<longrightarrow> main (args\<lparr>mode_arg := Recommend\<rparr>) w = (Inr (), w1))
   \<and> (config_files w (config_arg args) = Some config
        \<and> audit_buckets config w = (Inr results, w1)
        \<and> output_arg args = Some output_file \<and> output_file \<noteq> []
        \<and> writable w1 output_file
      \<longrightarrow> main (args\<lparr>mode_arg := Recommend\<rparr>) w =
            (Inr (), w1\<lparr>csv_files := (csv_files w1)
               (output_file \<mapsto>
                  \<lparr>fieldnames =
                     [''bucket_name'', ''size_gb'', ''object_count'', ''has_lifecycle'',
                      ''current_cost'', ''recommendation'', ''potential_savings''],
                   rows = results\<rparr>)\<rparr>))
   \<and> (config_files w (config_arg args) = Some config
        \<and> audit_buckets config w = (Inr results, w1)
        \<and> output_arg args = Some output_file \<and> output_file \<noteq> []
        \<and> \<not> writable w1 output_file
      \<longrightarrow> main (args\<lparr>mode_arg := Recommend\<rparr>) w = (Inl OSError, w1))
   \<and> (list_buckets (provider w) = Inr names
        \<and> storage_costs config ''standard'' = Some rate
        \<and> (\<forall>n \<in> set names. \<exists>lifecycle. fst (get_bucket_lifecycle n w) = Inr lifecycle)
      \<longrightarrow> (\<exists>results.
             audit_buckets config w =
               (Inr results,
                w\<lparr>calls := calls w @ ListBuckets # concat (map (\<lambda>n.
                     [GetBucketLifecycleConfiguration n,
                      GetMetricStatistics ''BucketSizeBytes'' n ''StandardStorage'',
                      GetMetricStatistics ''NumberOfObjects'' n ''AllStorageTypes'']) names)\<rparr>)
             \<and> map bucket_name_col results = names))
   \<and> (config_files w (config_arg args) = Some config
        \<and> list_buckets (provider w) = Inr names
        \<and> storage_costs config ''standard'' = Some rate
        \<and> (\<forall>n \<in> set names. \<exists>lifecycle. fst (get_bucket_lifecycle n w) = Inr lifecycle)
        \<and> output_arg args = Some output_file \<and> output_file \<noteq> []
        \<and> writable w output_file
      \<longrightarrow> (\<exists>results w1. audit_buckets config w = (Inr results, w1)
             \<and> map bucket_name_col results = names
             \<and> main (args\<lparr>mode_arg := Recommend\<rparr>) w =
                 (Inr (), w1\<lparr>csv_files := (csv_files w1)
                    (output_file \<mapsto>
                       \<lparr>fieldnames =
                          [''bucket_name'', ''size_gb'', ''object_count'', ''has_lifecycle'',
                           ''current_cost'', ''recommendation'', ''potential_savings''],
                        rows = results\<rparr>)\<rparr>)))"
proof -
  have same: "main (args\<lparr>mode_arg := Audit\<rparr>) w = main (args\<lparr>mode_arg := Recommend\<rparr>) w"
    by (simp add: main_def split: option.split prod.split sum.split)
  have none: "main (args\<lparr>mode_arg := Recommend\<rparr>) w = (Inl OSError, w)"
    if "config_files w (config_arg args) = None"
    using that by (simp add: main_def)
  have fail: "main (args\<lparr>mode_arg := Recommend\<rparr>) w = (Inl e, w1)"
    if "config_files w (config_arg args) = Some config" "audit_buckets config w = (Inl e, w1)"
    for e w1
    using that by (simp add: main_def)
  have quiet: "main (args\<lparr>mode_arg := Recommend\<rparr>) w = (Inr (), w1)"
    if "config_files w (config_arg args) = Some config"
      "audit_buckets config w = (Inr results, w1)"
      "output_arg args = None \<or> output_arg args = Some []"
    for results w1
    using that by (auto simp add: main_def)
  have export: "main (args\<lparr>mode_arg := Recommend\<rparr>) w =
            (Inr (), w1\<lparr>csv_files := (csv_files w1)
               (output_file \<mapsto>
                  \<lparr>fieldnames =
                     [''bucket_name'', ''size_gb'', ''object_count'', ''has_lifecycle'',
                      ''current_cost'', ''recommendation'', ''potential_savings''],
                   rows = results\<rparr>)\<rparr>)"
    if "config_files w (config_arg args) = Some config"
      "audit_buckets config w = (Inr results, w1)"
      "output_arg args = Some output_file" "output_file \<noteq> []" "writable w1 output_file"
    for results w1
    using that by (simp add: main_def export_to_csv_def)
  have unwritable: "main (args\<lparr>mode_arg := Recommend\<rparr>) w = (Inl OSError, w1)"
    if "config_files w (config_arg args) = Some config"
      "audit_buckets config w = (Inr results, w1)"
      "output_arg args = Some output_file" "output_file \<noteq> []" "\<not> writable w1 output_file"
    for results w1
    using that by (simp add: main_def export_to_csv_def)
  have full: "\<exists>results.
             audit_buckets config w =
               (Inr results,
                w\<lparr>calls := calls w @ ListBuckets # concat (map (\<lambda>n.
                     [GetBucketLifecycleConfiguration n,
                      GetMetricStatistics ''BucketSizeBytes'' n ''StandardStorage'',
                      GetMetricStatistics ''NumberOfObjects'' n ''AllStorageTypes'']) names)\<rparr>)
             \<and> map bucket_name_col results = names"
    if "list_buckets (provider w) = Inr names" "storage_costs config ''standard'' = Some rate"
      "\<forall>n \<in> set names. \<exists>lifecycle. fst (get_bucket_lifecycle n w) = Inr lifecycle"
    by (rule audit_buckets_result [OF that])
  have whole: "\<exists>results w1. audit_buckets config w = (Inr results, w1)
             \<and> map bucket_name_col results = names
             \<and> main (args\<lparr>mode_arg := Recommend\<rparr>) w =
                 (Inr (), w1\<lparr>csv_files := (csv_files w1)
                    (output_file \<mapsto>
                       \<lparr>fieldnames =
                          [''bucket_name'', ''size_gb'', ''object_count'', ''has_lifecycle'',
                           ''current_cost'', ''recommendation'', ''potential_savings''],
                        rows = results\<rparr>)\<rparr>)"
    if c: "config_files w (config_arg args) = Some config"
      and l: "list_buckets (provider w) = Inr names"
      and r: "storage_costs config ''standard'' = Some rate"
      and rd: "\<forall>n \<in> set names. \<exists>lifecycle. fst (get_bucket_lifecycle n w) = Inr lifecycle"
      and o: "output_arg args = Some output_file" "output_file \<noteq> []"
      and wr: "writable w output_file"
  proof -
    let ?w1 = "w\<lparr>calls := calls w @ ListBuckets # concat (map (\<lambda>n.
                 [GetBucketLifecycleConfiguration n,
                  GetMetricStatistics ''BucketSizeBytes'' n ''StandardStorage'',
                  GetMetricStatistics ''NumberOfObjects'' n ''AllStorageTypes'']) names)\<rparr>"
    from audit_buckets_result [OF l r rd] obtain results
      where a: "audit_buckets config w = (Inr results, ?w1)"
        and m: "map bucket_name_col results = names" by blast
    have "writable ?w1 output_file" using wr by simp
    from export [OF c a o this] a m show ?thesis by blast
  qed
  show ?thesis
    apply (intro conjI impI)
    subgoal by (rule same)
    subgoal by (rule none)
    subgoal by (rule fail) blast+
    subgoal by (rule quiet) blast+
    subgoal by (rule export) blast+
    subgoal by (rule unwritable) blast+
    subgoal by (rule full) blast+
    subgoal by (rule whole) blast+
    done
qed

theorem audit_and_recommend_modes_agree_witness:
  "main (example_args\<lparr>mode_arg := Audit\<rparr>) example_world =
     main (example_args\<lparr>mode_arg := Recommend\<rparr>) example_world
   \<and> config_files example_world (config_arg (example_args\<lparr>config_arg := ''missing.yaml''\<rparr>)) = None
   \<and> main (example_args\<lparr>config_arg := ''missing.yaml'', mode_arg := Recommend\<rparr>) example_world =
       (Inl OSError, example_world)
   \<and> config_files example_world_no_class (config_arg example_args) = Some example_config
   \<and> audit_buckets example_config example_world_no_class =
       (Inl (AttributeError ''NoSuchLifecycleConfiguration''),
        example_world_no_class
          \<lparr>calls := [ListBuckets, GetBucketLifecycleConfiguration ''prod-logs-archive'']\<rparr>)
   \<and> main (example_args\<lparr>mode_arg := Recommend\<rparr>) example_world_no_class =
       (Inl (AttributeError ''NoSuchLifecycleConfiguration''),
        example_world_no_class
          \<lparr>calls := [ListBuckets, GetBucketLifecycleConfiguration ''prod-logs-archive'']\<rparr>)
   \<and> config_files example_world (config_arg example_args) = Some example_config
   \<and> list_buckets (provider example_world) =
       Inr [''prod-logs-archive'', ''tiny-bucket'', ''media-assets'', ''edge-archive'',
            ''new-backup'', ''lost-logs'']
   \<and> storage_costs example_config ''standard'' = Some (23 / 1000)
   \<and> fst (get_bucket_lifecycle ''prod-logs-archive'' example_world) = Inr None
   \<and> fst (get_bucket_lifecycle ''tiny-bucket'' example_world) = Inr None
   \<and> fst (get_bucket_lifecycle ''media-assets'' example_world) = Inr (Some [])
   \<and> fst (get_bucket_lifecycle ''edge-archive'' example_world) = Inr None
   \<and> fst (get_bucket_lifecycle ''new-backup'' example_world) = Inr None
   \<and> fst (get_bucket_lifecycle ''lost-logs'' example_world) = Inr None
   \<and> output_arg (example_args\<lparr>output_arg := None\<rparr>) = None
   \<and> output_arg example_args = Some ''report.csv'' \<and> ''report.csv'' \<noteq> []
   \<and> output_arg (example_args\<lparr>output_arg := Some ''/readonly/report.csv''\<rparr>) =
       Some ''/readonly/report.csv''
   \<and> ''/readonly/report.csv'' \<noteq> []
   \<and> writable example_world ''report.csv''
   \<and> (\<exists>results w1.
         audit_buckets example_config example_world = (Inr results, w1)
         \<and> map bucket_name_col results =
             [''prod-logs-archive'', ''tiny-bucket'', ''media-assets'', ''edge-archive'',
              ''new-backup'', ''lost-logs'']
         \<and> length (calls w1) = 19
         \<and> writable w1 ''report.csv''
         \<and> \<not> writable w1 ''/readonly/report.csv''
         \<and> main (example_args\<lparr>output_arg := None, mode_arg := Recommend\<rparr>) example_world =
             (Inr (), w1)
         \<and> main (example_args\<lparr>mode_arg := Recommend\<rparr>) example_world =
             (Inr (), w1\<lparr>csv_files := (csv_files w1)
                (''report.csv'' \<mapsto>
                   \<lparr>fieldnames =
                      [''bucket_name'', ''size_gb'', ''object_count'', ''has_lifecycle'',
                       ''current_cost'', ''recommendation'', ''potential_savings''],
                    rows = results\<rparr>)\<rparr>)
         \<and> main (example_args\<lparr>output_arg := Some ''/readonly/report.csv'',
                               mode_arg := Recommend\<rparr>) example_world =
             (Inl OSError, w1))"
proof -
  let ?names = "[''prod-logs-archive'', ''tiny-bucket'', ''media-assets'', ''edge-archive'',
                 ''new-backup'', ''lost-logs'']"
  let ?w1 = "example_world\<lparr>calls := calls example_world @ ListBuckets # concat (map (\<lambda>n.
                 [GetBucketLifecycleConfiguration n,
                  GetMetricStatistics ''BucketSizeBytes'' n ''StandardStorage'',
                  GetMetricStatistics ''NumberOfObjects'' n ''AllStorageTypes'']) ?names)\<rparr>"
  let ?csv = "\<lambda>results. \<lparr>fieldnames =
                      [''bucket_name'', ''size_gb'', ''object_count'', ''has_lifecycle'',
                       ''current_cost'', ''recommendation'', ''potential_savings''],
                    rows = results\<rparr>"
  have cfg0: "config_files example_world (config_arg (example_args\<lparr>config_arg := ''missing.yaml''\<rparr>))
                = None"
    by (simp add: example_world_def)
  have cfg1: "config_files example_world (config_arg example_args) = Some example_config"
    by (simp add: example_world_def example_args_def)
  have cfg1n: "config_files example_world (config_arg (example_args\<lparr>output_arg := None\<rparr>)) =
                 Some example_config"
    by (simp add: example_world_def example_args_def)
  have cfg1r: "config_files example_world
                 (config_arg (example_args\<lparr>output_arg := Some ''/readonly/report.csv''\<rparr>)) =
                 Some example_config"
    by (simp add: example_world_def example_args_def)
  have cfg2: "config_files example_world_no_class (config_arg example_args) = Some example_config"
    by (simp add: example_no_class(6) example_args_def)
  have o0: "output_arg (example_args\<lparr>output_arg := None\<rparr>) = None" by simp
  have o1: "output_arg example_args = Some ''report.csv''" by (simp add: example_args_def)
  have o2: "output_arg (example_args\<lparr>output_arg := Some ''/readonly/report.csv''\<rparr>) =
       Some ''/readonly/report.csv''" by simp
  have ne1: "''report.csv'' \<noteq> []" and ne2: "''/readonly/report.csv'' \<noteq> []" by simp_all
  have wr0: "writable example_world ''report.csv''" by (simp add: example_world_def)
  have wr1: "writable ?w1 ''report.csv''" by (simp add: example_world_def)
  have wr2: "\<not> writable ?w1 ''/readonly/report.csv''" by (simp add: example_world_def)
  have len: "length (calls ?w1) = 19" by (simp add: example_world_def)
  note t = audit_and_recommend_modes_agree
  note t_same = t [THEN conjunct1]
  note t_none = t [THEN conjunct2, THEN conjunct1, THEN mp]
  note t_fail = t [THEN conjunct2, THEN conjunct2, THEN conjunct1, THEN mp]
  note t_quiet = t [THEN conjunct2, THEN conjunct2, THEN conjunct2, THEN conjunct1, THEN mp]
  note t_export = t [THEN conjunct2, THEN conjunct2, THEN conjunct2, THEN conjunct2,
                     THEN conjunct1, THEN mp]
  note t_refuse = t [THEN conjunct2, THEN conjunct2, THEN conjunct2, THEN conjunct2,
                     THEN conjunct2, THEN conjunct1, THEN mp]
  note t_full = t [THEN conjunct2, THEN conjunct2, THEN conjunct2, THEN conjunct2,
                   THEN conjunct2, THEN conjunct2, THEN conjunct1, THEN mp]
  have same: "main (example_args\<lparr>mode_arg := Audit\<rparr>) example_world =
     main (example_args\<lparr>mode_arg := Recommend\<rparr>) example_world"
    by (rule t_same)
  have missing: "main (example_args\<lparr>config_arg := ''missing.yaml'', mode_arg := Recommend\<rparr>)
                   example_world = (Inl OSError, example_world)"
    by (rule t_none) (rule cfg0)
  have aborted: "main (example_args\<lparr>mode_arg := Recommend\<rparr>) example_world_no_class =
       (Inl (AttributeError ''NoSuchLifecycleConfiguration''),
        example_world_no_class
          \<lparr>calls := [ListBuckets, GetBucketLifecycleConfiguration ''prod-logs-archive'']\<rparr>)"
    by (rule t_fail) (intro conjI, rule cfg2, rule example_no_class_audit)
  have "\<exists>results. audit_buckets example_config example_world = (Inr results, ?w1)
          \<and> map bucket_name_col results = ?names"
    by (rule t_full) (intro conjI, rule example_listing, rule example_rate, rule example_reads)
  then obtain results
    where a: "audit_buckets example_config example_world = (Inr results, ?w1)"
      and m: "map bucket_name_col results = ?names" by (elim exE conjE)
  have quiet: "main (example_args\<lparr>output_arg := None, mode_arg := Recommend\<rparr>) example_world =
             (Inr (), ?w1)"
    by (rule t_quiet) (intro conjI disjI1, rule cfg1n, rule a, rule o0)
  have exported: "main (example_args\<lparr>mode_arg := Recommend\<rparr>) example_world =
             (Inr (), ?w1\<lparr>csv_files := (csv_files ?w1) (''report.csv'' \<mapsto> ?csv results)\<rparr>)"
    by (rule t_export) (intro conjI, rule cfg1, rule a, rule o1, rule ne1, rule wr1)
  have refused: "main (example_args\<lparr>output_arg := Some ''/readonly/report.csv'',
                               mode_arg := Recommend\<rparr>) example_world = (Inl OSError, ?w1)"
    by (rule t_refuse) (intro conjI, rule cfg1r, rule a, rule o2, rule ne2, rule wr2)
  have ex: "\<exists>results w1.
         audit_buckets example_config example_world = (Inr results, w1)
         \<and> map bucket_name_col results = ?names
         \<and> length (calls w1) = 19
         \<and> writable w1 ''report.csv''
         \<and> \<not> writable w1 ''/readonly/report.csv''
         \<and> main (example_args\<lparr>output_arg := None, mode_arg := Recommend\<rparr>) example_world =
             (Inr (), w1)
         \<and> main (example_args\<lparr>mode_arg := Recommend\<rparr>) example_world =
             (Inr (), w1\<lparr>csv_files := (csv_files w1) (''report.csv'' \<mapsto> ?csv results)\<rparr>)
         \<and> main (example_args\<lparr>output_arg := Some ''/readonly/report.csv'',
                               mode_arg := Recommend\<rparr>) example_world =
             (Inl OSError, w1)"
    by (intro exI [of _ results] exI [of _ ?w1] conjI)
       (rule a m len wr1 wr2 quiet exported refused)+
  show ?thesis
    by (intro conjI)
       (rule same cfg0 missing cfg2 example_no_class_audit aborted cfg1 example_listing
          example_rate example_lifecycle o0 o1 ne1 o2 ne2 wr0 ex)+
qed

end
